theory Spec2Isabelle
  imports Main "HOL-Library.Word"
begin

unbundle bit_operations_syntax

section \<open>Go strings and UTF-8\<close>

text \<open>
  A Go \<open>string\<close> and a \<open>[]byte\<close> are byte sequences: \<open>string\<close> (a \<open>char list\<close>, one
  \<open>char\<close> per byte).  \<open>len(text)\<close> is \<open>length\<close>.  A rune is a code point, a \<open>nat\<close>.
  Go's \<open>int\<close> is modelled by \<open>int\<close>: every length in this program is bounded by the
  size of a buffer held in memory, so the 64-bit wrap-around is out of reach.
\<close>

definition RuneError :: nat where
  "RuneError = 0xFFFD"

text \<open>
  \<open>utf8.DecodeRuneInString\<close> of the Go standard library: the first rune of the string
  and its width in bytes; an invalid or truncated sequence is \<open>RuneError\<close> of width 1.
  \<open>utf8_size\<close>, \<open>accept_lo\<close> and \<open>accept_hi\<close> are the library's tables \<open>first\<close> and
  \<open>acceptRanges\<close> for a leading byte in \<open>0xC2..0xF4\<close>.
\<close>

definition utf8_size :: "nat \<Rightarrow> nat" where
  "utf8_size s0 = (if s0 < 0xE0 then 2 else if s0 < 0xF0 then 3 else 4)"

definition accept_lo :: "nat \<Rightarrow> nat" where
  "accept_lo s0 = (if s0 = 0xE0 then 0xA0 else if s0 = 0xF0 then 0x90 else 0x80)"

definition accept_hi :: "nat \<Rightarrow> nat" where
  "accept_hi s0 = (if s0 = 0xED then 0x9F else if s0 = 0xF4 then 0x8F else 0xBF)"

fun DecodeRuneInString :: "string \<Rightarrow> nat \<times> nat" where
  "DecodeRuneInString [] = (RuneError, 0)"
| "DecodeRuneInString (c # cs) =
     (let s0 = (of_char c :: nat) in
      if s0 < 0x80 then (s0, 1)
      else if s0 < 0xC2 \<or> 0xF4 < s0 then (RuneError, 1)
      else if length (c # cs) < utf8_size s0 then (RuneError, 1)
      else
        let s1 = (of_char (cs ! 0) :: nat) in
        if s1 < accept_lo s0 \<or> accept_hi s0 < s1 then (RuneError, 1)
        else if utf8_size s0 \<le> 2 then ((s0 mod 32) * 64 + s1 mod 64, 2)
        else
          let s2 = (of_char (cs ! 1) :: nat) in
          if s2 < 0x80 \<or> 0xBF < s2 then (RuneError, 1)
          else if utf8_size s0 \<le> 3 then ((s0 mod 16) * 4096 + (s1 mod 64) * 64 + s2 mod 64, 3)
          else
            let s3 = (of_char (cs ! 2) :: nat) in
            if s3 < 0x80 \<or> 0xBF < s3 then (RuneError, 1)
            else ((s0 mod 8) * 262144 + (s1 mod 64) * 4096 + (s2 mod 64) * 64
                    + s3 mod 64, 4))"

text \<open>
  Decoding a whole string, as \<open>for _, c := range s\<close> and \<open>[]rune(s)\<close> do: each rune
  with the bytes it was decoded from.
\<close>

function decodeString :: "string \<Rightarrow> (nat \<times> string) list" where
  "decodeString s =
     (if s = [] then []
      else let (r, n) = DecodeRuneInString s in (r, take n s) # decodeString (drop n s))"
  by pat_completeness auto
termination
proof (relation "measure length")
  show "wf (measure (length :: string \<Rightarrow> nat))" by simp
next
  fix s :: string and x :: "nat \<times> nat" and r n :: nat
  assume ne: "s \<noteq> []" and x: "x = DecodeRuneInString s" and rn: "(r, n) = x"
  from ne obtain c cs where s: "s = c # cs" by (cases s) auto
  have "0 < snd (DecodeRuneInString (c # cs))"
    by (simp add: Let_def)
  with x rn s have "0 < n" by (metis snd_conv)
  with ne show "(drop n s, s) \<in> measure length" by simp
qed

declare decodeString.simps [simp del]

definition toRunes :: "string \<Rightarrow> nat list" where
  "toRunes s = map fst (decodeString s)"

definition splitRunes :: "string \<Rightarrow> string list" where
  "splitRunes s = map snd (decodeString s)"

definition RuneCountInString :: "string \<Rightarrow> int" where
  "RuneCountInString s = int (length (decodeString s))"

text \<open>\<open>string(runes)\<close>: the UTF-8 encoding of a rune slice (\<open>utf8.AppendRune\<close>).\<close>

definition encodeRune :: "nat \<Rightarrow> string" where
  "encodeRune r =
     (if r < 0x80 then [char_of r]
      else if r < 0x800 then [char_of (0xC0 + r div 64), char_of (0x80 + r mod 64)]
      else if 0x10FFFF < r \<or> (0xD800 \<le> r \<and> r \<le> 0xDFFF) then [CHR 0xEF, CHR 0xBF, CHR 0xBD]
      else if r < 0x10000 then
        [char_of (0xE0 + r div 4096), char_of (0x80 + (r div 64) mod 64),
         char_of (0x80 + r mod 64)]
      else
        [char_of (0xF0 + r div 262144), char_of (0x80 + (r div 4096) mod 64),
         char_of (0x80 + (r div 64) mod 64), char_of (0x80 + r mod 64)])"

definition fromRunes :: "nat list \<Rightarrow> string" where
  "fromRunes rs = concat (map encodeRune rs)"

section \<open>The piece table\<close>

datatype bufSrc = original | modify

datatype action = actionUnknown | actionInsert

text \<open>
  Modelled from the spec: \<open>textBuffer\<close> (its file is not under src/): an append-only byte
  buffer with a rune-to-byte index, "Append-only original + modify byte buffers" whose
  "rune\<rightarrow>byte index" gives the byte offsets of pieces.  The buffer is the list of its
  runes, each with the bytes it occupies: the bytes of the buffer are the concatenation,
  and the index maps rune \<open>i\<close> to the number of bytes before it.  A text is decoded when
  it is added.  Reads outside the buffer are cut to the buffer.
\<close>

type_synonym textBuffer = "string list"

definition newTextBuffer :: textBuffer where
  "newTextBuffer = []"

text \<open>Modelled from the spec: \<open>textBuffer.set\<close> replaces the content and returns its rune count.\<close>

definition set_buf :: "textBuffer \<Rightarrow> string \<Rightarrow> textBuffer \<times> int" where
  "set_buf b text = (splitRunes text, RuneCountInString text)"

text \<open>
  Modelled from the spec: \<open>textBuffer.append\<close> adds the text at the end and returns the
  rune offset and the byte offset at which it starts, and its rune count.
\<close>

definition append_buf :: "textBuffer \<Rightarrow> string \<Rightarrow> textBuffer \<times> int \<times> int \<times> int" where
  "append_buf b text =
     (b @ splitRunes text, int (length b), int (length (concat b)), RuneCountInString text)"

text \<open>Modelled from the spec: \<open>textBuffer.RuneOffset\<close>, the byte offset of a rune of the buffer.\<close>

definition buf_RuneOffset :: "textBuffer \<Rightarrow> int \<Rightarrow> int" where
  "buf_RuneOffset b runeIdx = int (length (concat (take (nat runeIdx) b)))"

text \<open>
  Modelled from the spec: \<open>textBuffer.bytesForRange\<close>, the number of bytes of \<open>runeCnt\<close>
  runes starting at rune \<open>runeOff\<close>.
\<close>

definition bytesForRange :: "textBuffer \<Rightarrow> int \<Rightarrow> int \<Rightarrow> int" where
  "bytesForRange b runeOff runeCnt =
     int (length (concat (take (nat runeCnt) (drop (nat runeOff) b))))"

text \<open>Modelled from the spec: \<open>textBuffer.getTextByRange\<close>, \<open>sz\<close> bytes from byte \<open>byteOff\<close>.\<close>

definition getTextByRange :: "textBuffer \<Rightarrow> int \<Rightarrow> int \<Rightarrow> string" where
  "getTextByRange b byteOff sz = take (nat sz) (drop (nat byteOff) (concat b))"

text \<open>
  Modelled from the spec: \<open>piece\<close> (3.1), with the field names the source uses:
  \<open>offset\<close> and \<open>length\<close> count runes, \<open>byteOff\<close> and \<open>byteLength\<close> bytes, all inside the
  buffer \<open>source\<close>.  The links of a piece are held by the piece list below.
\<close>

record piece =
  source :: bufSrc
  offset :: int
  length_p :: int
  byteOff :: int
  byteLength :: int

definition zeroPiece :: piece where
  "zeroPiece = \<lparr>source = original, offset = 0, length_p = 0, byteOff = 0, byteLength = 0\<rparr>"

text \<open>
  A \<open>*piece\<close> is an address (\<open>nat\<close>); the pieces themselves live in the \<open>store\<close> of the
  table, so that a piece changed through \<open>lastInsertPiece\<close> is changed for the list and
  for every saved range that holds it.

  Modelled from the spec: \<open>pieceList\<close> (3.2), "doubly linked sequence with sentinel
  head/tail": the addresses of the pieces between the two sentinels, in order.  The
  sentinels have the addresses 0 and 1.
\<close>

type_synonym pieceList = "nat list"

definition headPiece :: nat where
  "headPiece = 0"

definition tailPiece :: nat where
  "tailPiece = 1"

definition newPieceList :: pieceList where
  "newPieceList = []"

definition InsertBeforeTail :: "pieceList \<Rightarrow> nat \<Rightarrow> pieceList" where
  "InsertBeforeTail pl p = pl @ [p]"

text \<open>
  Modelled from the spec: \<open>pieceList.FindPiece\<close>, "lookup by rune index returns (piece,
  rune_offset_within_piece)".  An index at which a piece begins gives that piece with
  offset 0; the index after the last rune gives the tail sentinel.
\<close>

fun FindPiece :: "(nat \<Rightarrow> piece) \<Rightarrow> pieceList \<Rightarrow> int \<Rightarrow> nat \<times> int" where
  "FindPiece st [] runeIndex = (tailPiece, 0)"
| "FindPiece st (n # ns) runeIndex =
     (if runeIndex < length_p (st n) then (n, runeIndex)
      else FindPiece st ns (runeIndex - length_p (st n)))"

text \<open>The position of a piece in the list (of the tail sentinel: the length of the list).\<close>

definition indexOf :: "pieceList \<Rightarrow> nat \<Rightarrow> nat" where
  "indexOf pl p = length (takeWhile (\<lambda>q. q \<noteq> p) pl)"

text \<open>
  Modelled from the spec: \<open>pieceRange\<close> (3.3), "a captured span of the pre-edit piece
  list with saved seq_rune_len, seq_byte_len, and the rune index at which the edit
  happened", which \<open>Restore()\<close> "re-splices back into the list".  \<open>span\<close> is the captured
  run of pieces (empty for a boundary between two pieces), \<open>first\<close> the position in the
  list at which it was cut out, \<open>inplace\<close> the number of pieces that stand there instead.
  Where the source reads the neighbours of a piece from its links, the model reads the
  position of the piece from the list.
\<close>

record pieceRange =
  first :: nat
  span :: "nat list"
  inplace :: nat
  rng_seqLength :: int
  rng_seqBytes :: int
  rng_runeIndex :: int

definition newUndoPieceRange :: "int \<Rightarrow> int \<Rightarrow> int \<Rightarrow> pieceRange" where
  "newUndoPieceRange sl sb idx =
     \<lparr>first = 0, span = [], inplace = 0, rng_seqLength = sl, rng_seqBytes = sb,
      rng_runeIndex = idx\<rparr>"

definition newPieceRange :: pieceRange where
  "newPieceRange = newUndoPieceRange 0 0 0"

definition AsBoundary :: "pieceRange \<Rightarrow> pieceList \<Rightarrow> nat \<Rightarrow> pieceRange" where
  "AsBoundary rng pl target = rng\<lparr>first := indexOf pl target, span := []\<rparr>"

definition Append :: "pieceRange \<Rightarrow> pieceList \<Rightarrow> nat \<Rightarrow> pieceRange" where
  "Append rng pl p =
     (if span rng = [] then rng\<lparr>first := indexOf pl p, span := [p]\<rparr>
      else rng\<lparr>span := span rng @ [p]\<rparr>)"

text \<open>
  Modelled from the spec: \<open>pieceRange.Swap\<close> links the pieces of \<open>dest\<close> into the list in
  the place of the span of the range, which keeps its pieces.
\<close>

definition Swap :: "pieceRange \<Rightarrow> pieceRange \<Rightarrow> pieceList \<Rightarrow> pieceRange \<times> pieceList" where
  "Swap rng dest pl =
     (rng\<lparr>inplace := length (span dest)\<rparr>,
      take (first rng) pl @ span dest @ drop (first rng + length (span rng)) pl)"

text \<open>
  Modelled from the spec: \<open>pieceRange.Restore\<close> "re-splices the range back into the
  list"; the range then holds the pieces it replaced, so that the same range undoes
  the restore.  The saved lengths are those "captured at capture time".
\<close>

definition Restore :: "pieceRange \<Rightarrow> pieceList \<Rightarrow> pieceRange \<times> pieceList" where
  "Restore rng pl =
     (rng\<lparr>span := take (inplace rng) (drop (first rng) pl), inplace := length (span rng)\<rparr>,
      take (first rng) pl @ span rng @ drop (first rng + inplace rng) pl)"

text \<open>
  \<open>pieceRangeStack\<close> is a list with its top at the head.  It holds pointers to ranges:
  a range pushed and then changed by \<open>Swap\<close> or \<open>Restore\<close> is on the stack as changed,
  so the model pushes the range after the change.

  The table: the fields of the source (\<open>seqIndex\<close>, which the source never sets, left
  out), the \<open>store\<close> of the pieces and the next free address.
\<close>

record PieceTable =
  originalBuf :: textBuffer
  modifyBuf :: textBuffer
  seqLength :: int
  seqBytes :: int
  undoStack :: "pieceRange list"
  redoStack :: "pieceRange list"
  pieces :: pieceList
  lastAction :: action
  lastActionEndIdx :: int
  lastInsertPiece :: "nat option"
  store :: "nat \<Rightarrow> piece"
  nextAddr :: nat

text \<open>\<open>&piece{...}\<close>: the new piece is put at the next free address.\<close>

definition newPiece :: "PieceTable \<Rightarrow> piece \<Rightarrow> PieceTable \<times> nat" where
  "newPiece pt p = (pt\<lparr>store := (store pt)(nextAddr pt := p), nextAddr := Suc (nextAddr pt)\<rparr>,
                    nextAddr pt)"

definition addToBuffer :: "PieceTable \<Rightarrow> bufSrc \<Rightarrow> string \<Rightarrow> PieceTable \<times> int \<times> int \<times> int" where
  "addToBuffer pt src text =
     (if int (length text) \<le> 0 then (pt, 0, 0, 0)
      else if src = original then
        (let (b, cnt) = set_buf (originalBuf pt) text in (pt\<lparr>originalBuf := b\<rparr>, 0, 0, cnt))
      else
        (let (b, r) = append_buf (modifyBuf pt) text in (pt\<lparr>modifyBuf := b\<rparr>, r)))"

definition init :: "PieceTable \<Rightarrow> string \<Rightarrow> PieceTable" where
  "init pt text =
     (let (pt1, _, _, runeCnt) = addToBuffer pt original text in
      if runeCnt \<le> 0 then pt1
      else
        let (pt2, p) = newPiece pt1 \<lparr>source = original, offset = 0, length_p = runeCnt,
                                      byteOff = 0, byteLength = int (length text)\<rparr>
        in pt2\<lparr>pieces := InsertBeforeTail (pieces pt2) p,
                seqLength := length_p (store pt2 p),
                seqBytes := byteLength (store pt2 p)\<rparr>)"

definition NewPieceTable :: "string \<Rightarrow> PieceTable" where
  "NewPieceTable text =
     init \<lparr>originalBuf = newTextBuffer, modifyBuf = newTextBuffer, seqLength = 0, seqBytes = 0,
           undoStack = [], redoStack = [], pieces = newPieceList, lastAction = actionUnknown,
           lastActionEndIdx = 0, lastInsertPiece = None, store = (\<lambda>_. zeroPiece),
           nextAddr = 2\<rparr> text"

definition getBuf :: "PieceTable \<Rightarrow> bufSrc \<Rightarrow> textBuffer" where
  "getBuf pt src = (if src = original then originalBuf pt else modifyBuf pt)"

definition recordAction :: "PieceTable \<Rightarrow> action \<Rightarrow> int \<Rightarrow> PieceTable" where
  "recordAction pt a runeIndex = pt\<lparr>lastAction := a, lastActionEndIdx := runeIndex\<rparr>"

definition tryAppendToLastPiece :: "PieceTable \<Rightarrow> int \<Rightarrow> string \<Rightarrow> bool \<times> PieceTable" where
  "tryAppendToLastPiece pt runeIndex text =
     (if lastAction pt \<noteq> actionInsert \<or> runeIndex \<noteq> lastActionEndIdx pt \<or>
         lastInsertPiece pt = None \<or> RuneCountInString text > 1
      then (False, pt)
      else
        let (pt1, _, _, textRunes) = addToBuffer pt modify text;
            lp = the (lastInsertPiece pt1);
            old = store pt1 lp;
            pt2 = pt1\<lparr>store := (store pt1)(lp := old\<lparr>length_p := length_p old + textRunes\<rparr>)\<rparr>;
            old2 = store pt2 lp;
            pt3 = pt2\<lparr>store := (store pt2)
                          (lp := old2\<lparr>byteLength := byteLength old2 + int (length text)\<rparr>)\<rparr>;
            pt4 = pt3\<lparr>seqLength := seqLength pt3 + textRunes\<rparr>;
            pt5 = pt4\<lparr>seqBytes := seqBytes pt4 + int (length text)\<rparr>
        in (True, recordAction pt5 actionInsert (runeIndex + textRunes)))"

definition insertAtBoundary :: "PieceTable \<Rightarrow> int \<Rightarrow> string \<Rightarrow> nat \<Rightarrow> PieceTable" where
  "insertAtBoundary pt runeIndex text oldPiece =
     (let (pt1, textRuneOff, textByteOff, textRunes) = addToBuffer pt modify text;
          (pt2, newP) = newPiece pt1 \<lparr>source = modify, offset = textRuneOff,
                                       length_p = textRunes, byteOff = textByteOff,
                                       byteLength = int (length text)\<rparr>;
          pt3 = pt2\<lparr>lastInsertPiece := Some newP\<rparr>;
          oldPieces = AsBoundary (newUndoPieceRange (seqLength pt3) (seqBytes pt3) runeIndex)
                        (pieces pt3) oldPiece;
          newPieces = Append newPieceRange (pieces pt3) newP;
          (oldPieces', pl) = Swap oldPieces newPieces (pieces pt3);
          pt4 = pt3\<lparr>undoStack := oldPieces' # undoStack pt3, pieces := pl\<rparr>;
          pt5 = pt4\<lparr>seqLength := seqLength pt4 + textRunes\<rparr>;
          pt6 = pt5\<lparr>seqBytes := seqBytes pt5 + int (length text)\<rparr>
      in recordAction pt6 actionInsert (runeIndex + textRunes))"

definition insertInMiddle :: "PieceTable \<Rightarrow> int \<Rightarrow> string \<Rightarrow> nat \<Rightarrow> int \<Rightarrow> PieceTable" where
  "insertInMiddle pt runeIndex text oldPiece inRuneOff =
     (let (pt1, textRuneOff, textByteOff, textRunes) = addToBuffer pt modify text;
          (pt2, newP) = newPiece pt1 \<lparr>source = modify, offset = textRuneOff,
                                       length_p = textRunes, byteOff = textByteOff,
                                       byteLength = int (length text)\<rparr>;
          pt3 = pt2\<lparr>lastInsertPiece := Some newP\<rparr>;
          oldPieces = Append (newUndoPieceRange (seqLength pt3) (seqBytes pt3) runeIndex)
                        (pieces pt3) oldPiece;
          old = store pt3 oldPiece;
          byteLen = bytesForRange (getBuf pt3 (source old)) (offset old) inRuneOff;
          (pt4, left) = newPiece pt3 \<lparr>source = source old, offset = offset old,
                                       length_p = inRuneOff, byteOff = byteOff old,
                                       byteLength = byteLen\<rparr>;
          newPieces1 = Append newPieceRange (pieces pt4) left;
          newPieces2 = Append newPieces1 (pieces pt4) newP;
          byteOff' = buf_RuneOffset (getBuf pt4 (source old)) (offset old + inRuneOff);
          byteLen' = bytesForRange (getBuf pt4 (source old)) (offset old + inRuneOff)
                       (length_p old - inRuneOff);
          (pt5, right) = newPiece pt4 \<lparr>source = source old, offset = offset old + inRuneOff,
                                        length_p = length_p old - inRuneOff, byteOff = byteOff',
                                        byteLength = byteLen'\<rparr>;
          newPieces3 = Append newPieces2 (pieces pt5) right;
          (oldPieces', pl) = Swap oldPieces newPieces3 (pieces pt5);
          pt6 = pt5\<lparr>undoStack := oldPieces' # undoStack pt5, pieces := pl\<rparr>;
          pt7 = pt6\<lparr>seqLength := seqLength pt6 + textRunes\<rparr>;
          pt8 = pt7\<lparr>seqBytes := seqBytes pt7 + int (length text)\<rparr>
      in recordAction pt8 actionInsert (runeIndex + textRunes))"

text \<open>\<open>Insert\<close>: the returned boolean and the table after the call.\<close>

definition Insert :: "PieceTable \<Rightarrow> int \<Rightarrow> string \<Rightarrow> bool \<times> PieceTable" where
  "Insert pt runeIndex text =
     (if runeIndex > seqLength pt \<or> runeIndex < 0 then (False, pt)
      else
        let pt1 = pt\<lparr>redoStack := []\<rparr>;
            (merged, pt2) = tryAppendToLastPiece pt1 runeIndex text
        in
          if merged then (True, pt2)
          else
            let (oldPiece, inRuneOff) = FindPiece (store pt1) (pieces pt1) runeIndex
            in if inRuneOff = 0 then (True, insertAtBoundary pt1 runeIndex text oldPiece)
               else (True, insertInMiddle pt1 runeIndex text oldPiece inRuneOff))"

definition restorePieceRange :: "PieceTable \<Rightarrow> pieceRange \<Rightarrow> pieceRange \<times> PieceTable" where
  "restorePieceRange pt rng =
     (let (rng', pl) = Restore rng (pieces pt);
          pt1 = pt\<lparr>pieces := pl\<rparr>;
          pt2 = pt1\<lparr>seqLength := rng_seqLength rng'\<rparr>
      in (rng', pt2\<lparr>seqBytes := rng_seqBytes rng'\<rparr>))"

text \<open>
  \<open>undoRedo\<close> on a source and a destination stack: the returned boolean, the table and
  the two stacks after the call.
\<close>

definition undoRedo ::
  "PieceTable \<Rightarrow> pieceRange list \<Rightarrow> pieceRange list
     \<Rightarrow> bool \<times> PieceTable \<times> pieceRange list \<times> pieceRange list" where
  "undoRedo pt src dest =
     (if int (length src) \<le> 0 then (False, pt, src, dest)
      else
        let rng = hd src;
            src' = tl src;
            (rng', pt') = restorePieceRange pt rng
        in (True, pt', src', rng' # dest))"

definition Erase :: "PieceTable \<Rightarrow> PieceTable" where
  "Erase pt = pt"

definition Replace :: "PieceTable \<Rightarrow> PieceTable" where
  "Replace pt = pt"

definition Undo :: "PieceTable \<Rightarrow> bool \<times> PieceTable" where
  "Undo pt =
     (let (ok, pt', src, dest) = undoRedo pt (undoStack pt) (redoStack pt)
      in (ok, pt'\<lparr>undoStack := src, redoStack := dest\<rparr>))"

definition Redo :: "PieceTable \<Rightarrow> bool \<times> PieceTable" where
  "Redo pt =
     (let (ok, pt', src, dest) = undoRedo pt (redoStack pt) (undoStack pt)
      in (ok, pt'\<lparr>redoStack := src, undoStack := dest\<rparr>))"

definition Length :: "PieceTable \<Rightarrow> int" where
  "Length pt = seqLength pt"

section \<open>The reader over the piece table\<close>

text \<open>
  \<open>PieceTableReader\<close> embeds the table; of its own fields the model keeps the seek
  cursor (\<open>lines\<close> and \<open>lastPiece\<close> are not read by the functions below).
\<close>

record PieceTableReader =
  PieceTable :: PieceTable
  seekCursor :: int

datatype ioError = EOF

text \<open>
  The loop of \<open>ReadAt\<close> over the pieces from \<open>Head()\<close> to the tail.  \<open>out\<close> is what has
  been copied so far, \<open>p\<close> the rest of the destination slice (\<open>p = p[n:]\<close>);
  \<open>copy(p, fragment)\<close> copies \<open>min (len p) (len fragment)\<close> bytes.
\<close>

fun ReadAt_loop ::
  "PieceTable \<Rightarrow> pieceList \<Rightarrow> string \<Rightarrow> string \<Rightarrow> int \<Rightarrow> int \<Rightarrow> int \<Rightarrow> int
     \<Rightarrow> string \<times> string \<times> int" where
  "ReadAt_loop t [] out p tot off bytes expected = (out, p, tot)"
| "ReadAt_loop t (n # ns) out p tot off bytes expected =
     (let bytes' = bytes + byteLength (store t n) in
      if bytes' > off then
        let fragment = getTextByRange (getBuf t (source (store t n)))
                         (byteOff (store t n) + byteLength (store t n) - (bytes' - off))
                         (bytes' - off);
            k = min (length p) (length fragment);
            out' = out @ take k fragment;
            p' = drop k p;
            tot' = tot + int k;
            off' = off + int k
        in if tot' \<ge> expected then (out', p', tot')
           else ReadAt_loop t ns out' p' tot' off' bytes' expected
      else ReadAt_loop t ns out p tot off bytes' expected)"

text \<open>\<open>ReadAt\<close>: the destination after the call, the number of bytes read and the error.\<close>

definition ReadAt :: "PieceTableReader \<Rightarrow> string \<Rightarrow> int \<Rightarrow> string \<times> int \<times> ioError option" where
  "ReadAt r p off =
     (if length p = 0 then (p, 0, None)
      else if off \<ge> seqBytes (PieceTable r) then (p, 0, Some EOF)
      else
        let expected = int (length p);
            (out, rest, tot) =
               ReadAt_loop (PieceTable r) (pieces (PieceTable r)) [] p 0 off 0 expected
        in (out @ rest, tot, if tot < expected then Some EOF else None))"

datatype whence = SeekStart | SeekCurrent | SeekEnd

definition Seek :: "PieceTableReader \<Rightarrow> int \<Rightarrow> whence \<Rightarrow> PieceTableReader \<times> int" where
  "Seek r off w =
     (let r' = (case w of
                  SeekStart \<Rightarrow> r\<lparr>seekCursor := off\<rparr>
                | SeekCurrent \<Rightarrow> r\<lparr>seekCursor := seekCursor r + off\<rparr>
                | SeekEnd \<Rightarrow> r\<lparr>seekCursor := seqBytes (PieceTable r) + off\<rparr>)
      in (r', seekCursor r'))"

definition Read :: "PieceTableReader \<Rightarrow> string \<Rightarrow> PieceTableReader \<times> string \<times> int \<times> ioError option" where
  "Read r p =
     (let (p', n, err) = ReadAt r p (seekCursor r)
      in (r\<lparr>seekCursor := seekCursor r + n\<rparr>, p', n, err))"

text \<open>
  \<open>io.ReadFull\<close> of the Go standard library (\<open>ReadAtLeast\<close> with \<open>min = len(buf)\<close>):
  \<open>for n < min && err == nil { nn, err = r.Read(buf[n:]); n += nn }\<close>.  It ends because a
  \<open>Read\<close> into a non-empty slice that returns no error has filled the slice.
\<close>

function ReadFull_loop ::
  "PieceTableReader \<Rightarrow> string \<Rightarrow> nat \<Rightarrow> ioError option
     \<Rightarrow> PieceTableReader \<times> string \<times> nat \<times> ioError option" where
  "ReadFull_loop r buf n err =
     (if n < length buf \<and> err = None then
        let (r', p', nn, err') = Read r (drop n buf)
        in ReadFull_loop r' (take n buf @ p') (n + nat nn) err'
      else (r, buf, n, err))"
  by pat_completeness auto
termination
proof (relation "measures [\<lambda>(r, buf, n, err). if err = None then 1 else 0,
                           \<lambda>(r, buf, n, err). length buf - n]")
  show "wf (measures [\<lambda>(r :: PieceTableReader, buf :: string, n :: nat, err :: ioError option).
                        if err = None then 1 else 0,
                      \<lambda>(r, buf, n, err). length buf - n])"
    by simp
next
  fix r :: PieceTableReader and buf :: string and n :: nat and err :: "ioError option"
    and x :: "PieceTableReader \<times> string \<times> int \<times> ioError option"
    and r' :: PieceTableReader and y :: "string \<times> int \<times> ioError option"
    and p' :: string and z :: "int \<times> ioError option" and nn :: int
    and err' :: "ioError option"
  assume guard: "n < length buf \<and> err = None"
    and x: "x = Read r (drop n buf)" and "(r', y) = x" and "(p', z) = y" and "(nn, err') = z"
  then have rd: "Read r (drop n buf) = (r', p', nn, err')" by simp
  have len: "length (fst (ReadAt_loop t ns out p tot off bytes expected))
               + length (fst (snd (ReadAt_loop t ns out p tot off bytes expected)))
             = length out + length p"
    for t ns out p tot off bytes expected
    by (induction t ns out p tot off bytes expected rule: ReadAt_loop.induct)
       (auto simp: Let_def)
  have lenp: "length p' = length (drop n buf)"
    using rd len [of "PieceTable r" "pieces (PieceTable r)" "[]" "drop n buf" 0
                     "seekCursor r" 0 "int (length (drop n buf))"]
    by (auto simp: Read_def ReadAt_def Let_def split: if_splits prod.splits)
  have pos: "err' = None \<Longrightarrow> 0 < nn"
    using rd guard
    by (auto simp: Read_def ReadAt_def Let_def split: if_splits prod.splits)
  show "((r', take n buf @ p', n + nat nn, err'), (r, buf, n, err))
          \<in> measures [\<lambda>(r, buf, n, err). if err = None then 1 else 0,
                       \<lambda>(r, buf, n, err). length buf - n]"
  proof (cases err')
    case None
    with pos have "0 < nn" by simp
    with guard lenp None show ?thesis by auto
  next
    case (Some e)
    with guard show ?thesis by auto
  qed
qed

declare ReadFull_loop.simps [simp del]

definition ReadFull :: "PieceTableReader \<Rightarrow> string \<Rightarrow> PieceTableReader \<times> string \<times> int" where
  "ReadFull r buf = (let (r', buf', n, err) = ReadFull_loop r buf 0 None in (r', buf', int n))"

text \<open>
  \<open>Text\<close>: the reader after the call and the returned bytes.  The caller's buffer is cut
  to \<open>seqBytes\<close> bytes or replaced by a fresh one, and only the bytes read are returned,
  so the model reads into a fresh buffer of \<open>seqBytes\<close> zero bytes.
\<close>

definition Text :: "PieceTableReader \<Rightarrow> PieceTableReader \<times> string" where
  "Text r =
     (let buf = replicate (nat (seqBytes (PieceTable r))) (CHR 0x00);
          (r1, _) = Seek r 0 SeekStart;
          (r2, buf', n) = ReadFull r1 buf
      in (r2, take (nat n) buf'))"

text \<open>The document text of a table: what \<open>Text\<close> of a reader over the table returns.\<close>

definition document :: "PieceTable \<Rightarrow> string" where
  "document pt = snd (Text \<lparr>PieceTable = pt, seekCursor = 0\<rparr>)"

text \<open>The loop of \<open>RuneOffset\<close> over the pieces; after the last piece it returns \<open>bytes\<close>.\<close>

fun RuneOffset_loop :: "PieceTable \<Rightarrow> pieceList \<Rightarrow> int \<Rightarrow> int \<Rightarrow> int \<Rightarrow> int" where
  "RuneOffset_loop t [] runeOff bytes runes = bytes"
| "RuneOffset_loop t (n # ns) runeOff bytes runes =
     (if runes + length_p (store t n) > runeOff
      then bytes + bytesForRange (getBuf t (source (store t n))) (offset (store t n))
                     (runeOff - runes)
      else RuneOffset_loop t ns runeOff (bytes + byteLength (store t n))
             (runes + length_p (store t n)))"

definition RuneOffset :: "PieceTableReader \<Rightarrow> int \<Rightarrow> int" where
  "RuneOffset r runeOff =
     (if seqLength (PieceTable r) = 0 then 0
      else if runeOff \<ge> seqLength (PieceTable r) then seqBytes (PieceTable r)
      else RuneOffset_loop (PieceTable r) (pieces (PieceTable r)) runeOff 0 0)"

definition NewTextSource :: PieceTableReader where
  "NewTextSource = \<lparr>PieceTable = NewPieceTable [], seekCursor = 0\<rparr>"

section \<open>Reference semantics of edits on a plain string\<close>

text \<open>
  The reference of claim C1: an edit applied to a plain string indexed by runes.  The
  string is kept as the list of its runes, each with its bytes; its text is the
  concatenation.  These definitions follow the spec's words, not the source.
\<close>

datatype edit = EInsert int string | EErase int int | EReplace int int string

fun refEdit :: "string list \<Rightarrow> edit \<Rightarrow> string list" where
  "refEdit rs (EInsert i t) = take (nat i) rs @ splitRunes t @ drop (nat i) rs"
| "refEdit rs (EErase s e) = take (nat s) rs @ drop (nat e) rs"
| "refEdit rs (EReplace s e t) =
     (let rs' = take (nat s) rs @ drop (nat e) rs
      in take (nat s) rs' @ splitRunes t @ drop (nat s) rs')"

fun editInRange :: "string list \<Rightarrow> edit \<Rightarrow> bool" where
  "editInRange rs (EInsert i t) = (0 \<le> i \<and> i \<le> int (length rs))"
| "editInRange rs (EErase s e) = (0 \<le> s \<and> s \<le> e \<and> e \<le> int (length rs))"
| "editInRange rs (EReplace s e t) = (0 \<le> s \<and> s \<le> e \<and> e \<le> int (length rs))"

text \<open>
  The same edit on the table, through the methods the source has: \<open>Erase()\<close> and
  \<open>Replace()\<close> take no arguments.
\<close>

fun applyEdit :: "PieceTable \<Rightarrow> edit \<Rightarrow> PieceTable" where
  "applyEdit pt (EInsert i t) = snd (Insert pt i t)"
| "applyEdit pt (EErase s e) = Erase pt"
| "applyEdit pt (EReplace s e t) = Replace pt"

text \<open>A sequence of inserts, each in range of the string it is applied to and not empty.\<close>

fun insertsInRange :: "string list \<Rightarrow> (int \<times> string) list \<Rightarrow> bool" where
  "insertsInRange rs [] = True"
| "insertsInRange rs ((i, t) # ops) =
     (0 \<le> i \<and> i \<le> int (length rs) \<and> t \<noteq> [] \<and>
      insertsInRange (refEdit rs (EInsert i t)) ops)"

definition applyInserts :: "PieceTable \<Rightarrow> (int \<times> string) list \<Rightarrow> PieceTable" where
  "applyInserts pt ops = foldl (\<lambda>pt (i, t). snd (Insert pt i t)) pt ops"

definition refInserts :: "string list \<Rightarrow> (int \<times> string) list \<Rightarrow> string list" where
  "refInserts rs ops = foldl (\<lambda>rs (i, t). refEdit rs (EInsert i t)) rs ops"

section \<open>Documents, the forward byte walk and the byte-to-rune direction\<close>

text \<open>The runes a piece stands for, and the runes of the document, piece after piece.\<close>

definition pieceRunes :: "PieceTable \<Rightarrow> nat \<Rightarrow> string list" where
  "pieceRunes pt n =
     take (nat (length_p (store pt n)))
       (drop (nat (offset (store pt n))) (getBuf pt (source (store pt n))))"

definition docRunes :: "PieceTable \<Rightarrow> string list" where
  "docRunes pt = concat (map (pieceRunes pt) (pieces pt))"

text \<open>
  A piece agrees with its buffer when its rune range lies inside the buffer and its byte
  offset and byte length are those of that range.
\<close>

definition pieceOk :: "PieceTable \<Rightarrow> nat \<Rightarrow> bool" where
  "pieceOk pt n =
     (let p = store pt n; b = getBuf pt (source p) in
      0 \<le> offset p \<and> 0 \<le> length_p p \<and> offset p + length_p p \<le> int (length b) \<and>
      byteOff p = buf_RuneOffset b (offset p) \<and>
      byteLength p = bytesForRange b (offset p) (length_p p))"

text \<open>
  A well-formed document (3.1): every rune of a buffer has at least one byte, every
  piece of the list agrees with its buffer, and the two counters are the sums over the
  pieces.
\<close>

definition wellFormed :: "PieceTable \<Rightarrow> bool" where
  "wellFormed pt =
     (list_all (\<lambda>c. c \<noteq> []) (originalBuf pt) \<and> list_all (\<lambda>c. c \<noteq> []) (modifyBuf pt) \<and>
      list_all (pieceOk pt) (pieces pt) \<and>
      seqLength pt = sum_list (map (\<lambda>n. length_p (store pt n)) (pieces pt)) \<and>
      seqBytes pt = sum_list (map (\<lambda>n. byteLength (store pt n)) (pieces pt)))"

text \<open>
  The forward byte walk: the byte offset reached after walking over the first
  \<open>runeOff\<close> runes of the document.
\<close>

fun forwardByteWalk :: "string list \<Rightarrow> int \<Rightarrow> int \<Rightarrow> int" where
  "forwardByteWalk [] runeOff bytes = bytes"
| "forwardByteWalk (c # cs) runeOff bytes =
     (if runeOff \<le> 0 then bytes else forwardByteWalk cs (runeOff - 1) (bytes + int (length c)))"

text \<open>
  Modelled from the spec: the byte-to-rune direction of the "rune \<leftrightarrow> byte translation"
  of the document source (4.2), \<open>byte_offset\<close> in section 8; the source has only the
  field type \<open>runeOffIndex\<close> of it.  The rune index of a byte offset is the number of
  runes that begin before it.
\<close>

fun ByteOffset_loop :: "string list \<Rightarrow> int \<Rightarrow> int \<Rightarrow> int" where
  "ByteOffset_loop [] b runes = runes"
| "ByteOffset_loop (c # cs) b runes =
     (if b \<le> 0 then runes else ByteOffset_loop cs (b - int (length c)) (runes + 1))"

definition ByteOffset :: "PieceTableReader \<Rightarrow> int \<Rightarrow> int" where
  "ByteOffset r b = ByteOffset_loop (docRunes (PieceTable r)) b 0"

section \<open>Visual lines\<close>

text \<open>
  \<open>text.Glyph\<close> of Gio with the fields \<open>recompute\<close> reads or writes: \<open>X\<close> and \<open>Advance\<close>
  are \<open>fixed.Int26_6\<close> (an \<open>int32\<close>), \<open>Y\<close> is an \<open>int32\<close>, \<open>Flags\<close> a \<open>uint16\<close>.
  \<open>FlagTowardOrigin\<close> and \<open>FlagLineBreak\<close> are the first two flags of Gio.  The line
  holds pointers to distinct glyphs; the model holds the glyphs.
\<close>

record Glyph =
  X :: "32 word"
  Y :: "32 word"
  Advance :: "32 word"
  Flags :: "16 word"

definition FlagTowardOrigin :: "16 word" where
  "FlagTowardOrigin = 1"

definition FlagLineBreak :: "16 word" where
  "FlagLineBreak = 2"

text \<open>The field \<open>Runes\<close> of the line is \<open>LineRunes\<close> here (\<open>Runes\<close> is a field of \<open>Position\<close>).\<close>

record Line =
  XOff :: "32 word"
  YOff :: int
  Width :: "32 word"
  Ascent :: "32 word"
  Descent :: "32 word"
  Glyphs :: "Glyph list"
  LineRunes :: int
  RuneOff :: int

text \<open>The three inner loops of \<open>recompute\<close>, each over \<open>j\<close> from \<open>runStart\<close> below \<open>i\<close>.\<close>

definition runWidth :: "Glyph list \<Rightarrow> nat \<Rightarrow> nat \<Rightarrow> 32 word" where
  "runWidth gs runStart i = foldl (\<lambda>w j. w + Advance (gs ! j)) 0 [runStart..<i]"

definition markLast :: "Glyph list \<Rightarrow> nat \<Rightarrow> Glyph list" where
  "markLast gs j =
     (if int j = int (length gs) - 1
      then gs[j := (gs ! j)\<lparr>Flags := Flags (gs ! j) OR FlagLineBreak\<rparr>] else gs)"

definition stepRTL :: "Glyph list \<times> 32 word \<Rightarrow> nat \<Rightarrow> Glyph list \<times> 32 word" where
  "stepRTL st j =
     (let gs = fst st; cursor = snd st;
          cursor' = cursor - Advance (gs ! j);
          gs' = gs[j := (gs ! j)\<lparr>X := cursor'\<rparr>]
      in (markLast gs' j, cursor'))"

definition layoutRTL :: "Glyph list \<Rightarrow> nat \<Rightarrow> nat \<Rightarrow> 32 word \<Rightarrow> Glyph list" where
  "layoutRTL gs runStart i cursor0 = fst (foldl stepRTL (gs, cursor0) [runStart..<i])"

definition stepLTR :: "Glyph list \<times> 32 word \<Rightarrow> nat \<Rightarrow> Glyph list \<times> 32 word" where
  "stepLTR st j =
     (let gs = fst st; cursor = snd st;
          gs' = gs[j := (gs ! j)\<lparr>X := cursor\<rparr>];
          cursor' = cursor + Advance (gs' ! j)
      in (markLast gs' j, cursor'))"

definition layoutLTR :: "Glyph list \<Rightarrow> nat \<Rightarrow> nat \<Rightarrow> 32 word \<Rightarrow> Glyph list" where
  "layoutLTR gs runStart i cursor0 = fst (foldl stepLTR (gs, cursor0) [runStart..<i])"

text \<open>
  The outer loop \<open>for i := 0; i <= len(li.Glyphs); i++\<close> with its variables \<open>xOff\<close> and
  \<open>runStart\<close>.  It ends because the inner loops keep the number of glyphs.
\<close>

function recompute_loop :: "Glyph list \<Rightarrow> 32 word \<Rightarrow> nat \<Rightarrow> 32 word \<Rightarrow> nat \<Rightarrow> Glyph list" where
  "recompute_loop gs alignOff i xOff runStart =
     (if i \<le> length gs then
        let endOfRun =
              (if i = length gs then True
               else (Flags (gs ! i) AND FlagTowardOrigin)
                      \<noteq> (Flags (gs ! runStart) AND FlagTowardOrigin))
        in
          if endOfRun then
            let rw = runWidth gs runStart i;
                isRTL = ((Flags (gs ! runStart) AND FlagTowardOrigin) = FlagTowardOrigin);
                gs' = (if isRTL then layoutRTL gs runStart i (alignOff + xOff + rw)
                       else layoutLTR gs runStart i (alignOff + xOff))
            in recompute_loop gs' alignOff (Suc i) (xOff + rw) i
          else recompute_loop gs alignOff (Suc i) xOff runStart
      else gs)"
  by pat_completeness auto
termination
proof (relation "measure (\<lambda>(gs, alignOff, i, xOff, runStart). Suc (length gs) - i)")
  show "wf (measure (\<lambda>(gs :: Glyph list, alignOff :: 32 word, i :: nat, xOff :: 32 word,
                        runStart :: nat). Suc (length gs) - i))"
    by simp
next
  fix gs :: "Glyph list" and alignOff xOff :: "32 word" and i runStart :: nat
  assume "i \<le> length gs"
  then show "((gs, alignOff, Suc i, xOff, runStart), (gs, alignOff, i, xOff, runStart))
               \<in> measure (\<lambda>(gs, alignOff, i, xOff, runStart). Suc (length gs) - i)"
    by simp
next
  fix gs gs' :: "Glyph list" and alignOff xOff rw :: "32 word" and i runStart :: nat
    and isRTL :: bool
  assume le: "i \<le> length gs"
    and gs': "gs' = (if isRTL then layoutRTL gs runStart i (alignOff + xOff + rw)
                     else layoutLTR gs runStart i (alignOff + xOff))"
  have mark: "length (markLast hs j) = length hs" for hs j
    by (simp add: markLast_def)
  have rtl: "length (fst (foldl stepRTL st js)) = length (fst st)" for st js
    by (induction js arbitrary: st) (simp_all add: stepRTL_def Let_def mark)
  have ltr: "length (fst (foldl stepLTR st js)) = length (fst st)" for st js
    by (induction js arbitrary: st) (simp_all add: stepLTR_def Let_def mark)
  have "length gs' = length gs"
    using gs' by (simp add: layoutRTL_def layoutLTR_def rtl ltr)
  with le show "((gs', alignOff, Suc i, xOff + rw, i), (gs, alignOff, i, xOff, runStart))
               \<in> measure (\<lambda>(gs, alignOff, i, xOff, runStart). Suc (length gs) - i)"
    by simp
qed

declare recompute_loop.simps [simp del]

definition recompute :: "Line \<Rightarrow> 32 word \<Rightarrow> int \<Rightarrow> Line" where
  "recompute li alignOff runeOff =
     (if length (Glyphs li) = 0 then li\<lparr>RuneOff := runeOff\<rparr>
      else
        let li1 = li\<lparr>Glyphs := recompute_loop (Glyphs li) alignOff 0 0 0\<rparr>
        in li1\<lparr>RuneOff := runeOff\<rparr>)"

text \<open>
  The words of the spec (4.3, step 4): the direction of a glyph, and a maximal run
  \<open>[a, b)\<close> of glyphs of one direction in logical order.
\<close>

definition direction :: "Glyph \<Rightarrow> 16 word" where
  "direction g = Flags g AND FlagTowardOrigin"

definition rightToLeft :: "Glyph \<Rightarrow> bool" where
  "rightToLeft g = (direction g = FlagTowardOrigin)"

definition maximalRun :: "Glyph list \<Rightarrow> nat \<Rightarrow> nat \<Rightarrow> bool" where
  "maximalRun gs a b =
     (a < b \<and> b \<le> length gs \<and>
      list_all (\<lambda>k. direction (gs ! k) = direction (gs ! a)) [a..<b] \<and>
      (a = 0 \<or> direction (gs ! (a - 1)) \<noteq> direction (gs ! a)) \<and>
      (b = length gs \<or> direction (gs ! b) \<noteq> direction (gs ! a)))"

definition advances :: "Glyph list \<Rightarrow> nat \<Rightarrow> nat \<Rightarrow> 32 word" where
  "advances gs a b = sum_list (map (\<lambda>k. Advance (gs ! k)) [a..<b])"

section \<open>Completion: triggers, sessions and the default completion\<close>

text \<open>
  The types of package \<open>gvcode\<close> that \<open>addons/completion\<close> uses, with the fields the
  code reads.  \<open>key.Modifiers\<close> is a \<open>uint32\<close>.  A completor is an interface value: a
  record of its three methods.  The candidate type is left open (\<open>'c\<close>), the popup is
  an opaque handle.
\<close>

record KeyBinding =
  Name :: string
  Modifiers :: "32 word"

record Trigger =
  Characters :: "string list"
  KeyBinding :: KeyBinding

record Position =
  Line :: int
  Column :: int
  Runes :: int

record EditRange =
  Start :: Position
  End :: Position

record CompletionContext =
  Input :: string
  Position :: Position
  Coords :: "int \<times> int"

definition zeroPosition :: Position where
  "zeroPosition = \<lparr>Line = 0, Column = 0, Runes = 0\<rparr>"

definition zeroEditRange :: EditRange where
  "zeroEditRange = \<lparr>Start = zeroPosition, End = zeroPosition\<rparr>"

definition zeroContext :: CompletionContext where
  "zeroContext = \<lparr>Input = [], Position = zeroPosition, Coords = (0, 0)\<rparr>"

record 'c Completor =
  Trigger :: Trigger
  Suggest :: "CompletionContext \<Rightarrow> 'c list"
  FilterAndRank :: "string \<Rightarrow> 'c list \<Rightarrow> 'c list"

type_synonym CompletionPopup = nat

record 'c delegatedCompletor =
  popup :: CompletionPopup
  Completor :: "'c Completor"

datatype triggerKind = autoTrigger | charTrigger | keyTrigger

record 'c triggerState =
  triggerKind :: triggerKind
  completor :: "'c delegatedCompletor"
  triggered :: bool
  triggerChars :: string

text \<open>
  \<open>session.state\<close> is a pointer that \<open>newSession\<close> always sets; the record holds the
  state itself.  A \<open>*session\<close> that may be nil is a \<open>session option\<close>.
\<close>

record 'c session =
  ctx :: CompletionContext
  state :: "'c triggerState"
  canceled :: bool
  prefix :: "nat list"
  prefixRange :: EditRange
  candidates :: "'c list"

definition newSession :: "'c delegatedCompletor \<Rightarrow> triggerKind \<Rightarrow> 'c session" where
  "newSession cmp kind =
     \<lparr>ctx = zeroContext,
      state = \<lparr>triggerKind = kind, completor = cmp, triggered = True, triggerChars = []\<rparr>,
      canceled = False, prefix = [], prefixRange = zeroEditRange, candidates = []\<rparr>"

definition terminatingChars :: "nat list" where
  "terminatingChars =
     map of_char [CHR ''{'', CHR ''}'', CHR ''('', CHR '')'', CHR '','', CHR '';'', CHR '' '',
                  CHR 0x0A, CHR 0x09, CHR ''.'']"

definition hasTerminateChar :: "string \<Rightarrow> bool" where
  "hasTerminateChar input =
     (if input = [] then False else toRunes input ! 0 \<in> set terminatingChars)"

definition isSymbolChar :: "nat \<Rightarrow> bool" where
  "isSymbolChar ch =
     (if (of_char CHR ''a'' \<le> ch \<and> ch \<le> of_char CHR ''z'') \<or>
         (of_char CHR ''A'' \<le> ch \<and> ch \<le> of_char CHR ''Z'') \<or>
         (of_char CHR ''0'' \<le> ch \<and> ch \<le> of_char CHR ''9'') \<or>
         ch = of_char CHR ''_''
      then True else False)"

definition makeInvalid :: "'c session \<Rightarrow> 'c session" where
  "makeInvalid s = s\<lparr>canceled := True, prefix := [], prefixRange := zeroEditRange,
                      candidates := []\<rparr>"

text \<open>
  \<open>session.Update\<close>: the session after the call and the returned candidates
  (\<open>nil\<close> is the empty list).
\<close>

definition Update :: "'c session \<Rightarrow> CompletionContext \<Rightarrow> 'c session \<times> 'c list" where
  "Update s c =
     (if canceled s then (s, [])
      else
        let s1 = (if triggered (state s)
                  then s\<lparr>candidates := Suggest (Completor (completor (state s))) c,
                         state := (state s)\<lparr>triggerChars := Input c, triggered := False\<rparr>,
                         prefix := [], prefixRange := zeroEditRange\<rparr>
                  else s)
        in
          if hasTerminateChar (Input c) \<and> Input c \<noteq> triggerChars (state s1)
          then (makeInvalid s1, [])
          else
            let s2 = s1\<lparr>ctx := c\<rparr>;
                s3 = (if Input c \<noteq> [] \<and> isSymbolChar (toRunes (Input (ctx s2)) ! 0)
                      then
                        let s4 = s2\<lparr>prefix := prefix s2 @ toRunes (Input c)\<rparr>;
                            s5 = (if prefixRange s4 = zeroEditRange
                                  then
                                    let start = (Position c)
                                          \<lparr>Column := max 0 (Column (Position c)
                                                         - int (length (toRunes (Input c)))),
                                           Runes := 0\<rparr>
                                    in s4\<lparr>prefixRange := (prefixRange s4)\<lparr>Start := start\<rparr>\<rparr>
                                  else s4)
                        in s5\<lparr>prefixRange :=
                                (prefixRange s5)\<lparr>End := (Position c)\<lparr>Runes := 0\<rparr>\<rparr>\<rparr>
                      else s2)
            in (s3, FilterAndRank (Completor (completor (state s3)))
                      (fromRunes (prefix s3)) (candidates s3)))"

definition IsValid :: "'c session option \<Rightarrow> bool" where
  "IsValid s = (case s of None \<Rightarrow> False | Some s' \<Rightarrow> \<not> canceled s')"

text \<open>
  \<open>Editor.RegisterCommand\<close> is not part of this package; of the editor the model keeps
  the key filters (name, required modifiers) registered with it.
\<close>

record Editor =
  commands :: "(string \<times> 32 word) list"

record 'c DefaultCompletion =
  Editor :: Editor
  completors :: "'c delegatedCompletor list"
  dc_candidates :: "'c list"
  session :: "'c session option"

text \<open>\<open>AddCompletor\<close>: the returned error (\<open>None\<close> is \<open>nil\<close>) and the completion after the call.\<close>

definition AddCompletor ::
  "'c DefaultCompletion \<Rightarrow> 'c Completor \<Rightarrow> CompletionPopup
     \<Rightarrow> string option \<times> 'c DefaultCompletion" where
  "AddCompletor dc cmp pop =
     (let c = \<lparr>popup = pop, Completor = cmp\<rparr>;
          trigger = Trigger cmp;
          duplicatedKey = list_ex (\<lambda>cm.
             let tr = Trigger (Completor cm)
             in Name (KeyBinding tr) = Name (KeyBinding trigger) \<and>
                Modifiers (KeyBinding tr) = Modifiers (KeyBinding trigger)) (completors dc)
      in
        if duplicatedKey then (Some ''duplicated key binding'', dc)
        else
          let dc1 = (if Name (KeyBinding trigger) \<noteq> [] \<and> Modifiers (KeyBinding trigger) \<noteq> 0
                     then dc\<lparr>Editor := (Editor dc)\<lparr>commands := commands (Editor dc) @
                            [(Name (KeyBinding trigger), Modifiers (KeyBinding trigger))]\<rparr>\<rparr>
                     else dc)
          in (None, dc1\<lparr>completors := completors dc1 @ [c]\<rparr>))"

definition updateCandidates :: "'c DefaultCompletion \<Rightarrow> 'c list \<Rightarrow> 'c DefaultCompletion" where
  "updateCandidates dc cands = dc\<lparr>dc_candidates := [] @ cands\<rparr>"

definition Cancel :: "'c DefaultCompletion \<Rightarrow> 'c DefaultCompletion" where
  "Cancel dc =
     (let dc1 = (if IsValid (session dc)
                 then dc\<lparr>session := map_option makeInvalid (session dc)\<rparr> else dc)
      in dc1\<lparr>dc_candidates := []\<rparr>)"

text \<open>
  \<open>canTrigger\<close> indexes \<open>[]rune(input)[0]\<close>: on an empty input that is not itself a
  trigger character Go panics, which is \<open>None\<close> here.
\<close>

definition canTrigger :: "Trigger \<Rightarrow> string \<Rightarrow> bool option" where
  "canTrigger tr input =
     (if input \<in> set (Characters tr) then Some True
      else if toRunes input = [] then None
      else Some (isSymbolChar (toRunes input ! 0)))"

text \<open>
  The loop of \<open>OnText\<close> over the completors: the first one that can be triggered
  (\<open>Some None\<close> when there is none, \<open>None\<close> when \<open>canTrigger\<close> panics).
\<close>

fun findCompletor ::
  "'c delegatedCompletor list \<Rightarrow> string \<Rightarrow> 'c delegatedCompletor option option" where
  "findCompletor [] input = Some None"
| "findCompletor (cmp # rest) input =
     (case canTrigger (Trigger (Completor cmp)) input of
        None \<Rightarrow> None
      | Some True \<Rightarrow> Some (Some cmp)
      | Some False \<Rightarrow> findCompletor rest input)"

definition OnText ::
  "'c DefaultCompletion \<Rightarrow> CompletionContext \<Rightarrow> 'c DefaultCompletion option" where
  "OnText dc c =
     (if Input c = [] then Some (Cancel dc)
      else
        let (dc1, handled) =
              (case session dc of
                 None \<Rightarrow> (dc, False)
               | Some s \<Rightarrow>
                   if IsValid (Some s)
                   then
                     let (s', cands) = Update s c;
                         dc' = updateCandidates (dc\<lparr>session := Some s'\<rparr>) cands
                     in (dc', IsValid (Some s'))
                   else (dc, False))
        in
          if handled then Some dc1
          else
            case findCompletor (completors dc1) (Input c) of
              None \<Rightarrow> None
            | Some None \<Rightarrow> Some dc1
            | Some (Some cmp) \<Rightarrow>
                let s = (case session dc1 of
                           None \<Rightarrow> newSession cmp charTrigger
                         | Some s0 \<Rightarrow>
                             if \<not> IsValid (Some s0) then newSession cmp charTrigger else s0);
                    (s', cands) = Update s c
                in Some (updateCandidates (dc1\<lparr>session := Some s'\<rparr>) cands))"

section \<open>Predicates of the specification\<close>

text \<open>
  The words of the spec (4.1, coalescing): an insert coalesces when it succeeds and adds
  no piece (the list is the same and no piece is allocated) and no undo entry.
\<close>

definition coalesces :: "PieceTable \<Rightarrow> int \<Rightarrow> string \<Rightarrow> bool" where
  "coalesces pt i t =
     (let pt' = snd (Insert pt i t) in
      fst (Insert pt i t) \<and> pieces pt' = pieces pt \<and> undoStack pt' = undoStack pt \<and>
      nextAddr pt' = nextAddr pt)"

text \<open>The words of the spec (4.6): two triggers have the same key binding.\<close>

definition sameKeyBinding :: "Trigger \<Rightarrow> Trigger \<Rightarrow> bool" where
  "sameKeyBinding tr tr' =
     (Name (KeyBinding tr) = Name (KeyBinding tr') \<and>
      Modifiers (KeyBinding tr) = Modifiers (KeyBinding tr'))"

section \<open>Insert: range check, coalescing and the three-way split\<close>

lemma addToBuffer_keeps:
  "pieces (fst (addToBuffer q s t)) = pieces q \<and>
   undoStack (fst (addToBuffer q s t)) = undoStack q \<and>
   redoStack (fst (addToBuffer q s t)) = redoStack q \<and>
   nextAddr (fst (addToBuffer q s t)) = nextAddr q \<and>
   store (fst (addToBuffer q s t)) = store q"
  by (simp add: addToBuffer_def set_buf_def append_buf_def)

lemma tryAppend_keeps:
  "pieces (snd (tryAppendToLastPiece q i t)) = pieces q \<and>
   undoStack (snd (tryAppendToLastPiece q i t)) = undoStack q \<and>
   redoStack (snd (tryAppendToLastPiece q i t)) = redoStack q \<and>
   nextAddr (snd (tryAppendToLastPiece q i t)) = nextAddr q"
  using addToBuffer_keeps [of q modify t]
  by (auto simp: tryAppendToLastPiece_def recordAction_def Let_def split: prod.splits)

lemma tryAppend_fst:
  "fst (tryAppendToLastPiece q i t) =
     (lastAction q = actionInsert \<and> i = lastActionEndIdx q \<and> lastInsertPiece q \<noteq> None \<and>
      RuneCountInString t \<le> 1)"
  by (auto simp: tryAppendToLastPiece_def Let_def split: prod.splits)

lemma FindPiece_mem:
  "FindPiece st pl i = (n, off) \<Longrightarrow> off \<noteq> 0 \<Longrightarrow> n \<in> set pl"
  by (induction st pl i rule: FindPiece.induct) (auto split: if_splits)

lemma indexOf_less: "n \<in> set pl \<Longrightarrow> indexOf pl n < length pl"
  by (induction pl) (auto simp: indexOf_def)

lemma insertAtBoundary_grows:
  "length (undoStack (insertAtBoundary q i t old)) = Suc (length (undoStack q)) \<and>
   length (pieces (insertAtBoundary q i t old)) = Suc (length (pieces q)) \<and>
   redoStack (insertAtBoundary q i t old) = redoStack q \<and>
   nextAddr (insertAtBoundary q i t old) = Suc (nextAddr q)"
  using addToBuffer_keeps [of q modify t]
  by (auto simp: insertAtBoundary_def newPiece_def recordAction_def Swap_def Let_def
        AsBoundary_def Append_def newPieceRange_def newUndoPieceRange_def
        split: prod.splits)

lemma insertInMiddle_grows:
  assumes "old \<in> set (pieces q)"
  shows "length (undoStack (insertInMiddle q i t old off)) = Suc (length (undoStack q)) \<and>
   length (pieces (insertInMiddle q i t old off)) = length (pieces q) + 2 \<and>
   nextAddr (insertInMiddle q i t old off) = nextAddr q + 3"
  using addToBuffer_keeps [of q modify t] indexOf_less [OF assms]
  by (auto simp: insertInMiddle_def newPiece_def recordAction_def Swap_def Let_def
        AsBoundary_def Append_def newPieceRange_def newUndoPieceRange_def
        split: prod.splits)

lemma insertInMiddle_redo:
  "redoStack (insertInMiddle q i t old off) = redoStack q"
  using addToBuffer_keeps [of q modify t]
  by (auto simp: insertInMiddle_def newPiece_def recordAction_def Swap_def Let_def
        split: prod.splits)

lemma Insert_merged:
  assumes "0 \<le> i" and "i \<le> seqLength pt"
    and "fst (tryAppendToLastPiece (pt\<lparr>redoStack := []\<rparr>) i t)"
  shows "Insert pt i t = (True, snd (tryAppendToLastPiece (pt\<lparr>redoStack := []\<rparr>) i t))"
  using assms
  by (cases "tryAppendToLastPiece (pt\<lparr>redoStack := []\<rparr>) i t")
     (simp add: Insert_def Let_def)

lemma Insert_boundary:
  assumes "0 \<le> i" and "i \<le> seqLength pt"
    and "\<not> fst (tryAppendToLastPiece (pt\<lparr>redoStack := []\<rparr>) i t)"
    and "FindPiece (store pt) (pieces pt) i = (old, 0)"
  shows "Insert pt i t = (True, insertAtBoundary (pt\<lparr>redoStack := []\<rparr>) i t old)"
  using assms
  by (cases "tryAppendToLastPiece (pt\<lparr>redoStack := []\<rparr>) i t")
     (simp add: Insert_def Let_def)

lemma Insert_middle:
  assumes "0 \<le> i" and "i \<le> seqLength pt"
    and "\<not> fst (tryAppendToLastPiece (pt\<lparr>redoStack := []\<rparr>) i t)"
    and "FindPiece (store pt) (pieces pt) i = (old, off)" and "off \<noteq> 0"
  shows "Insert pt i t = (True, insertInMiddle (pt\<lparr>redoStack := []\<rparr>) i t old off)"
  using assms
  by (cases "tryAppendToLastPiece (pt\<lparr>redoStack := []\<rparr>) i t")
     (simp add: Insert_def Let_def)

text \<open>
  C5.  An \<open>Insert\<close> at a rune index outside \<open>[0, seqLength]\<close> returns false and leaves
  the whole table as it was (so the document text, the piece list, the rune and byte
  lengths and both stacks are unchanged); an \<open>Insert\<close> at an index inside the range
  returns true and leaves the redo stack empty.
\<close>

theorem Insert_range:
  "(runeIndex < 0 \<or> seqLength pt < runeIndex \<longrightarrow> Insert pt runeIndex text = (False, pt)) \<and>
   (0 \<le> runeIndex \<and> runeIndex \<le> seqLength pt \<longrightarrow>
      fst (Insert pt runeIndex text) \<and> redoStack (snd (Insert pt runeIndex text)) = [])"
proof (intro conjI impI)
  assume "runeIndex < 0 \<or> seqLength pt < runeIndex"
  then show "Insert pt runeIndex text = (False, pt)"
    by (auto simp: Insert_def)
next
  assume "0 \<le> runeIndex \<and> runeIndex \<le> seqLength pt"
  then show "fst (Insert pt runeIndex text)"
    by (simp add: Insert_def Let_def split: prod.splits)
next
  assume h: "0 \<le> runeIndex \<and> runeIndex \<le> seqLength pt"
  obtain old off where f: "FindPiece (store pt) (pieces pt) runeIndex = (old, off)"
    by (cases "FindPiece (store pt) (pieces pt) runeIndex")
  show "redoStack (snd (Insert pt runeIndex text)) = []"
  proof (cases "fst (tryAppendToLastPiece (pt\<lparr>redoStack := []\<rparr>) runeIndex text)")
    case True
    with h show ?thesis
      using tryAppend_keeps [of "pt\<lparr>redoStack := []\<rparr>" runeIndex "text"]
      by (simp add: Insert_merged)
  next
    case False
    show ?thesis
    proof (cases "off = 0")
      case True
      with False f h show ?thesis
        using insertAtBoundary_grows [of "pt\<lparr>redoStack := []\<rparr>" runeIndex "text" old]
        by (simp add: Insert_boundary)
    next
      case off: False
      with False f h show ?thesis
        using insertInMiddle_redo [of "pt\<lparr>redoStack := []\<rparr>" runeIndex "text" old off]
        by (simp add: Insert_middle)
    qed
  qed
qed

theorem Insert_range_witness:
  "Insert (NewPieceTable ''hello'') 6 ''x'' = (False, NewPieceTable ''hello'') \<and>
   fst (Insert (NewPieceTable ''hello'') 5 ''x'') \<and>
   redoStack (snd (Insert (NewPieceTable ''hello'') 5 ''x'')) = []"
proof -
  have h1: "(6::int) < 0 \<or> seqLength (NewPieceTable ''hello'') < 6" by code_simp
  have h2: "(0::int) \<le> 5 \<and> 5 \<le> seqLength (NewPieceTable ''hello'')" by code_simp
  from Insert_range [of 6 "NewPieceTable ''hello''" "''x''"] h1
  have r1: "Insert (NewPieceTable ''hello'') 6 ''x'' = (False, NewPieceTable ''hello'')"
    by blast
  from Insert_range [of 5 "NewPieceTable ''hello''" "''x''"] h2
  have r2: "fst (Insert (NewPieceTable ''hello'') 5 ''x'') \<and>
            redoStack (snd (Insert (NewPieceTable ''hello'') 5 ''x'')) = []"
    by blast
  from r1 r2 show ?thesis by blast
qed

text \<open>
  C3.  On a table made from \<open>hello\<close>, \<open>Insert(2, "XY")\<close> returns true and the document is
  \<open>heXYllo\<close>.  The one piece of the table is replaced by three: the left part (runes 0-1
  of the original buffer, from byte 0), the new piece (the two runes added to the modify
  buffer) and the right part (3 runes of the original buffer from rune 2, whose byte
  offset 2 and byte length 3 come from the rune index of the buffer).  \<open>Undo()\<close> then
  returns true, the list holds the one old piece again and the document is \<open>hello\<close>.
\<close>

theorem Insert_split_hello:
  "(let pt0 = NewPieceTable ''hello'';
        r1 = Insert pt0 2 ''XY'';
        pt1 = snd r1;
        r2 = Undo pt1
    in fst r1 \<and> document pt1 = ''heXYllo'' \<and>
       pieces pt0 = [2] \<and> pieces pt1 = [4, 3, 5] \<and>
       store pt1 4 = \<lparr>source = original, offset = 0, length_p = 2, byteOff = 0, byteLength = 2\<rparr> \<and>
       store pt1 3 = \<lparr>source = modify, offset = 0, length_p = 2, byteOff = 0, byteLength = 2\<rparr> \<and>
       store pt1 5 = \<lparr>source = original, offset = 2, length_p = 3, byteOff = 2, byteLength = 3\<rparr> \<and>
       span (hd (undoStack pt1)) = [2] \<and>
       fst r2 \<and> document (snd r2) = ''hello'' \<and> pieces (snd r2) = [2])"
  by code_simp

text \<open>
  C2.  \<open>Undo\<close> followed by \<open>Redo\<close> is not the identity on the document text.  On the
  table made from \<open>hello\<close>, after \<open>Insert(2, "XY")\<close> the undo stack is not empty and the
  document is \<open>heXYllo\<close>; \<open>Undo()\<close> and \<open>Redo()\<close> both return true and the piece list is
  the one before the \<open>Undo\<close>, but \<open>restorePieceRange\<close> has set \<open>seqLength\<close> and \<open>seqBytes\<close>
  to the values saved in the range, those of before the insert, both times: \<open>seqBytes\<close>
  is 5 and \<open>Text\<close> returns \<open>heXYl\<close>.
\<close>

theorem Undo_Redo_not_identity:
  "(let pt1 = snd (Insert (NewPieceTable ''hello'') 2 ''XY'');
        r2 = Undo pt1;
        r3 = Redo (snd r2)
    in undoStack pt1 \<noteq> [] \<and> document pt1 = ''heXYllo'' \<and> seqBytes pt1 = 7 \<and>
       fst r2 \<and> document (snd r2) = ''hello'' \<and> fst r3 \<and>
       pieces (snd r3) = pieces pt1 \<and>
       map (store (snd r3)) (pieces (snd r3)) = map (store pt1) (pieces pt1) \<and>
       seqLength (snd r3) = 5 \<and> seqBytes (snd r3) = 5 \<and>
       document (snd r3) = ''heXYl'' \<and> document (snd r3) \<noteq> document pt1)"
  by code_simp

end
